theory Spec2Isabelle
  imports Main
begin

section \<open>JavaScript values\<close>

text \<open>
  The managers receive untyped JavaScript values and inspect them with \<open>typeof\<close>,
  truthiness tests, \<open>instanceof Function\<close> and property reads. The values are modelled
  by the datatype below. Numbers carry an integer or are \<open>NaN\<close>: the managers only ask
  for a number's type and truthiness. Functions are opaque (identified by a tag). An
  object is the list of its own properties, looked up by name.
\<close>

datatype js_value =
    JUndefined
  | JNull
  | JBool bool
  | JNum int
  | JNaN
  | JStr string
  | JFun nat
  | JArr "js_value list"
  | JObj "(string \<times> js_value) list"

datatype js_error = ArgumentError string | TypeError | OtherError string

fun typeof :: "js_value \<Rightarrow> string" where
  "typeof JUndefined = ''undefined''"
| "typeof JNull = ''object''"
| "typeof (JBool b) = ''boolean''"
| "typeof (JNum n) = ''number''"
| "typeof JNaN = ''number''"
| "typeof (JStr s) = ''string''"
| "typeof (JFun f) = ''function''"
| "typeof (JArr xs) = ''object''"
| "typeof (JObj kvs) = ''object''"

text \<open>Truthiness, as tested by \<open>!v\<close>, \<open>v || d\<close> and \<open>v && w\<close>.\<close>

fun truthy :: "js_value \<Rightarrow> bool" where
  "truthy JUndefined = False"
| "truthy JNull = False"
| "truthy (JBool b) = b"
| "truthy (JNum n) = (n \<noteq> 0)"
| "truthy JNaN = False"
| "truthy (JStr s) = (s \<noteq> [])"
| "truthy (JFun f) = True"
| "truthy (JArr xs) = True"
| "truthy (JObj kvs) = True"

text \<open>\<open>v instanceof Function\<close>.\<close>

fun instanceof_Function :: "js_value \<Rightarrow> bool" where
  "instanceof_Function (JFun f) = True"
| "instanceof_Function v = False"

text \<open>
  The property read \<open>v.name\<close>, for the configuration and parameter names the managers
  read (\<open>id\<close>, \<open>user_id\<close>, \<open>provider\<close>, \<open>baseUrl\<close>, \<open>headers\<close>, \<open>retry\<close>,
  \<open>tokenProvider\<close>): on \<open>null\<close> and \<open>undefined\<close> it throws a TypeError, on an object
  it gives the property or \<open>undefined\<close>, and on every other value it gives
  \<open>undefined\<close>, since none of these names is a built-in property.
\<close>

fun get_prop :: "js_value \<Rightarrow> string \<Rightarrow> js_error + js_value" where
  "get_prop JUndefined k = Inl TypeError"
| "get_prop JNull k = Inl TypeError"
| "get_prop (JObj kvs) k = Inr (case map_of kvs k of None \<Rightarrow> JUndefined | Some v \<Rightarrow> v)"
| "get_prop v k = Inr JUndefined"

text \<open>\<open>v || d\<close>\<close>

definition js_or :: "js_value \<Rightarrow> js_value \<Rightarrow> js_value" where
  "js_or v d = (if truthy v then v else d)"

text \<open>The \<open>i\<close>-th entry of \<open>arguments\<close>; a parameter with no argument is \<open>undefined\<close>.\<close>

definition arg :: "js_value list \<Rightarrow> nat \<Rightarrow> js_value" where
  "arg arguments i = (if i < length arguments then arguments ! i else JUndefined)"


section \<open>REST clients and the calls made on them\<close>

text \<open>
  Modelled from the spec: the client classes \<open>Auth0RestClient\<close> and
  \<open>RetryRestClient\<close> (required from \<open>../Auth0RestClient\<close> and \<open>../RetryRestClient\<close>),
  \<open>RestClient\<close> (required from \<open>rest-facade\<close>) and \<open>MetadataUpdater\<close> (required
  from \<open>./MetadataUpdater\<close>) are not in the sources. Following the spec, an instance
  is constructed once and holds the configuration it was given: the path template, the
  options, the token provider, and for the retry wrapper the wrapped client and the
  retry policy configuration.
\<close>

datatype client =
    RestClient string js_value
  | Auth0RestClient string js_value js_value
  | RetryRestClient client js_value

datatype metadata_updater = MetadataUpdater js_value

fun client_url :: "client \<Rightarrow> string" where
  "client_url (RestClient u opts) = u"
| "client_url (Auth0RestClient u opts tp) = u"
| "client_url (RetryRestClient c r) = client_url c"

text \<open>
  The methods of a client that the sources invoke. \<open>patch\<close> and \<open>update\<close> are two
  methods of a client: ConnectionsManager calls \<open>resource.patch\<close> and Users calls
  \<open>resource.update\<close> on instances of the same class.
\<close>

datatype client_method = Create | GetAll | Get | Patch | Update | Delete

text \<open>
  A manager operation either throws before it reaches a client, or returns what a single
  call on one of its clients returns. The call is recorded by its receiver, its method
  and its argument list.
\<close>

datatype client_call = Call client client_method "js_value list"

type_synonym outcome = "js_error + client_call"

text \<open>The calls an operation has placed on its clients when it returns or throws.\<close>

fun client_calls :: "outcome \<Rightarrow> client_call list" where
  "client_calls (Inl e) = []"
| "client_calls (Inr c) = [c]"

fun is_ArgumentError :: "js_error + 'a \<Rightarrow> bool" where
  "is_ArgumentError (Inl (ArgumentError m)) = True"
| "is_ArgumentError r = False"

section \<open>What the sources leave to code outside them\<close>

text \<open>
  The constructors of the four absent classes may check their arguments and throw;
  neither the sources nor the spec say what they check. What each throws for given
  arguments (\<open>None\<close> when it accepts them) is therefore a parameter of the model, and so
  is the conversion of a value that is not a string to a string, which \<open>+\<close> applies to
  an operand. A manager constructor is modelled for every choice of these parameters.
\<close>

record externals =
  RestClient_throws :: "string \<Rightarrow> js_value \<Rightarrow> js_error option"
  Auth0RestClient_throws :: "string \<Rightarrow> js_value \<Rightarrow> js_value \<Rightarrow> js_error option"
  RetryRestClient_throws :: "client \<Rightarrow> js_value \<Rightarrow> js_error option"
  MetadataUpdater_throws :: "js_value \<Rightarrow> js_error option"
  ToString :: "js_value \<Rightarrow> string"

text \<open>\<open>new C(...)\<close>: the error the constructor throws, or the instance.\<close>

definition new_RestClient :: "externals \<Rightarrow> string \<Rightarrow> js_value \<Rightarrow> js_error + client" where
  "new_RestClient ext u opts =
     (case RestClient_throws ext u opts of
        Some e \<Rightarrow> Inl e
      | None \<Rightarrow> Inr (RestClient u opts))"

definition new_Auth0RestClient ::
  "externals \<Rightarrow> string \<Rightarrow> js_value \<Rightarrow> js_value \<Rightarrow> js_error + client" where
  "new_Auth0RestClient ext u opts tp =
     (case Auth0RestClient_throws ext u opts tp of
        Some e \<Rightarrow> Inl e
      | None \<Rightarrow> Inr (Auth0RestClient u opts tp))"

definition new_RetryRestClient :: "externals \<Rightarrow> client \<Rightarrow> js_value \<Rightarrow> js_error + client" where
  "new_RetryRestClient ext c r =
     (case RetryRestClient_throws ext c r of
        Some e \<Rightarrow> Inl e
      | None \<Rightarrow> Inr (RetryRestClient c r))"

definition new_MetadataUpdater :: "externals \<Rightarrow> js_value \<Rightarrow> js_error + metadata_updater" where
  "new_MetadataUpdater ext options =
     (case MetadataUpdater_throws ext options of
        Some e \<Rightarrow> Inl e
      | None \<Rightarrow> Inr (MetadataUpdater options))"

text \<open>A statement followed by the rest of the function body; an exception leaves at once.\<close>

definition and_then :: "js_error + 'a \<Rightarrow> ('a \<Rightarrow> js_error + 'b) \<Rightarrow> js_error + 'b" where
  "and_then r body = (case r of Inl e \<Rightarrow> Inl e | Inr x \<Rightarrow> body x)"

text \<open>An operand of \<open>+\<close> beside a string: a string as it is, any other value converted.\<close>

definition operand :: "externals \<Rightarrow> js_value \<Rightarrow> string" where
  "operand ext v = (case v of JStr s \<Rightarrow> s | _ \<Rightarrow> ToString ext v)"

section \<open>UsersManager\<close>

record users_manager =
  users :: client
  multifactor :: client
  identities :: client
  userLogs :: client
  enrollments :: client
  usersByEmail :: client
  recoveryCodeRegenerations :: client
  invalidateRememberBrowsers :: client
  roles :: client
  permissions :: client
  organizations :: client

text \<open>
  The process-wide global variables of the JavaScript program, by name. A constructor
  takes them and returns them, updated where it assigns to one.
\<close>

type_synonym globals = "string \<rightharpoonup> js_value"

text \<open>The property \<open>options.name\<close> of an options value already known to be a non-null object.\<close>

definition opt :: "js_value \<Rightarrow> string \<Rightarrow> js_value" where
  "opt options k = (case get_prop options k of Inl e \<Rightarrow> JUndefined | Inr v \<Rightarrow> v)"

text \<open>
  After its three guards the constructor builds eleven clients in the order of the
  source, each a \<open>new Auth0RestClient\<close> wrapped by a \<open>new RetryRestClient\<close>; what one
  of these constructors throws leaves the manager constructor.
\<close>

definition UsersManager ::
  "externals \<Rightarrow> js_value \<Rightarrow> globals \<Rightarrow> (js_error + users_manager) \<times> globals" where
  "UsersManager ext options g =
    (if options = JNull \<or> typeof options \<noteq> ''object'' then
       (Inl (ArgumentError ''Must provide manager options''), g)
     else if opt options ''baseUrl'' = JNull \<or> opt options ''baseUrl'' = JUndefined then
       (Inl (ArgumentError ''Must provide a base URL for the API''), g)
     else
       (case opt options ''baseUrl'' of
          JStr baseUrl \<Rightarrow>
            if length baseUrl = 0 then
              (Inl (ArgumentError ''The provided base URL is invalid''), g)
            else
              (let clientOptions = JObj
                     [(''errorFormatter'',
                         JObj [(''message'', JStr ''message''), (''name'', JStr ''error'')]),
                      (''headers'', opt options ''headers''),
                      (''query'', JObj [(''repeatParams'', JBool False)])];
                   mk = (\<lambda>path.
                           and_then
                             (new_Auth0RestClient ext (baseUrl @ path) clientOptions
                                (opt options ''tokenProvider''))
                             (\<lambda>c. new_RetryRestClient ext c (opt options ''retry'')))
               in (and_then (mk ''/users/:id'') (\<lambda>c1.
                   and_then (mk ''/users/:id/multifactor/:provider'') (\<lambda>c2.
                   and_then (mk ''/users/:id/identities/:provider/:user_id'') (\<lambda>c3.
                   and_then (mk ''/users/:id/logs'') (\<lambda>c4.
                   and_then (mk ''/users/:id/enrollments'') (\<lambda>c5.
                   and_then (mk ''/users-by-email'') (\<lambda>c6.
                   and_then (mk ''/users/:id/recovery-code-regeneration'') (\<lambda>c7.
                   and_then (mk ''/users/:id/multifactor/actions/invalidate-remember-browser'')
                     (\<lambda>c8.
                   and_then (mk ''/users/:id/roles'') (\<lambda>c9.
                   and_then (mk ''/users/:id/permissions'') (\<lambda>c10.
                   and_then (mk ''/users/:id/organizations'') (\<lambda>c11.
                     Inr \<lparr> users = c1,
                           multifactor = c2,
                           identities = c3,
                           userLogs = c4,
                           enrollments = c5,
                           usersByEmail = c6,
                           recoveryCodeRegenerations = c7,
                           invalidateRememberBrowsers = c8,
                           roles = c9,
                           permissions = c10,
                           organizations = c11 \<rparr>))))))))))), g))
        | _ \<Rightarrow> (Inl (ArgumentError ''The provided base URL is invalid''), g)))"

text \<open>
  The operations. Those that forward \<open>arguments\<close> take the argument list; the others
  take their named parameters, \<open>undefined\<close> standing for an argument left out. The
  helper \<open>read_prop\<close> is a property read followed by the rest of the function body; the
  TypeError of a read on \<open>null\<close> or \<open>undefined\<close> leaves the function at once.
\<close>

definition read_prop ::
  "js_value \<Rightarrow> string \<Rightarrow> (js_value \<Rightarrow> js_error + 'a) \<Rightarrow> js_error + 'a" where
  "read_prop v k body = (case get_prop v k of Inl e \<Rightarrow> Inl e | Inr x \<Rightarrow> body x)"

text \<open>
  The shared tail \<open>if (cb && cb instanceof Function) return c.m(..., cb); return c.m(...)\<close>.
\<close>

definition with_cb :: "client \<Rightarrow> client_method \<Rightarrow> js_value list \<Rightarrow> js_value \<Rightarrow> outcome" where
  "with_cb c m args cb =
     (if truthy cb \<and> instanceof_Function cb then Inr (Call c m (args @ [cb]))
      else Inr (Call c m args))"





definition UsersManager_updateUserMetadata ::
  "users_manager \<Rightarrow> js_value \<Rightarrow> js_value \<Rightarrow> js_value \<Rightarrow> outcome" where
  "UsersManager_updateUserMetadata this params metadata cb =
     (let data = JObj [(''user_metadata'', metadata)]
      in with_cb (users this) Patch [params, data] cb)"

definition UsersManager_updateAppMetadata ::
  "users_manager \<Rightarrow> js_value \<Rightarrow> js_value \<Rightarrow> js_value \<Rightarrow> outcome" where
  "UsersManager_updateAppMetadata this params metadata cb =
     (let data = JObj [(''app_metadata'', metadata)]
      in with_cb (users this) Patch [params, data] cb)"

definition UsersManager_delete :: "users_manager \<Rightarrow> js_value list \<Rightarrow> outcome" where
  "UsersManager_delete this arguments =
     (let params = arg arguments 0
      in if typeof params \<noteq> ''object'' then
           Inl (ArgumentError ''You must provide an id for the delete method'')
         else read_prop params ''id'' (\<lambda>i.
           if typeof i \<noteq> ''string'' then
             Inl (ArgumentError ''You must provide an id for the delete method'')
           else Inr (Call (users this) Delete arguments)))"

definition UsersManager_deleteAll :: "users_manager \<Rightarrow> js_value list \<Rightarrow> outcome" where
  "UsersManager_deleteAll this arguments =
     (let cb = arg arguments 0
      in if typeof cb \<noteq> ''function'' then
           Inl (ArgumentError ''The deleteAll method only accepts a callback as argument'')
         else Inr (Call (users this) Delete arguments))"

definition UsersManager_deleteMultifactorProvider ::
  "users_manager \<Rightarrow> js_value \<Rightarrow> js_value \<Rightarrow> outcome" where
  "UsersManager_deleteMultifactorProvider this params0 cb =
     (let params = js_or params0 (JObj [])
      in read_prop params ''id'' (\<lambda>i.
           if \<not> truthy i \<or> typeof i \<noteq> ''string'' then
             Inl (ArgumentError ''The id parameter must be a valid user id'')
           else read_prop params ''provider'' (\<lambda>p.
             if \<not> truthy p \<or> typeof p \<noteq> ''string'' then
               Inl (ArgumentError ''Must specify a provider'')
             else with_cb (multifactor this) Delete [params] cb)))"

definition UsersManager_unlink :: "users_manager \<Rightarrow> js_value \<Rightarrow> js_value \<Rightarrow> outcome" where
  "UsersManager_unlink this params0 cb =
     (let params = js_or params0 (JObj [])
      in read_prop params ''id'' (\<lambda>i.
           if \<not> truthy i \<or> typeof i \<noteq> ''string'' then
             Inl (ArgumentError ''id field is required'')
           else read_prop params ''user_id'' (\<lambda>u.
             if \<not> truthy u \<or> typeof u \<noteq> ''string'' then
               Inl (ArgumentError ''user_id field is required'')
             else read_prop params ''provider'' (\<lambda>p.
               if \<not> truthy p \<or> typeof p \<noteq> ''string'' then
                 Inl (ArgumentError ''provider field is required'')
               else with_cb (identities this) Delete [params] cb))))"

text \<open>
  \<open>!params || !params.id\<close>: the property is read only when \<open>params\<close> is truthy.
\<close>

definition UsersManager_regenerateRecoveryCode ::
  "users_manager \<Rightarrow> js_value \<Rightarrow> js_value \<Rightarrow> outcome" where
  "UsersManager_regenerateRecoveryCode this params cb =
     (if \<not> truthy params then
        Inl (ArgumentError ''The userId cannot be null or undefined'')
      else read_prop params ''id'' (\<lambda>i.
        if \<not> truthy i then
          Inl (ArgumentError ''The userId cannot be null or undefined'')
        else with_cb (recoveryCodeRegenerations this) Create [params, JObj []] cb))"

definition UsersManager_invalidateRememberBrowser ::
  "users_manager \<Rightarrow> js_value \<Rightarrow> js_value \<Rightarrow> outcome" where
  "UsersManager_invalidateRememberBrowser this params cb =
     (if \<not> truthy params then
        Inl (ArgumentError ''The userId cannot be null or undefined'')
      else read_prop params ''id'' (\<lambda>i.
        if \<not> truthy i then
          Inl (ArgumentError ''The userId cannot be null or undefined'')
        else with_cb (invalidateRememberBrowsers this) Create [params, JObj []] cb))"

text \<open>
  \<open>removeRoles\<close> and \<open>removePermissions\<close> default \<open>query\<close> to \<open>{}\<close> but read
  \<open>params.id\<close> from the argument itself.
\<close>

definition UsersManager_removeRoles ::
  "users_manager \<Rightarrow> js_value \<Rightarrow> js_value \<Rightarrow> js_value \<Rightarrow> outcome" where
  "UsersManager_removeRoles this params data0 cb =
     (let query = js_or params (JObj []); data = js_or data0 (JObj [])
      in read_prop params ''id'' (\<lambda>i.
           if \<not> truthy i then
             Inl (ArgumentError ''The user_id cannot be null or undefined'')
           else if typeof i \<noteq> ''string'' then
             Inl (ArgumentError ''The user_id has to be a string'')
           else with_cb (roles this) Delete [query, data] cb))"

definition UsersManager_removePermissions ::
  "users_manager \<Rightarrow> js_value \<Rightarrow> js_value \<Rightarrow> js_value \<Rightarrow> outcome" where
  "UsersManager_removePermissions this params data0 cb =
     (let query = js_or params (JObj []); data = js_or data0 (JObj [])
      in read_prop params ''id'' (\<lambda>i.
           if \<not> truthy i then
             Inl (ArgumentError ''The user_id cannot be null or undefined'')
           else if typeof i \<noteq> ''string'' then
             Inl (ArgumentError ''The user_id has to be a string'')
           else with_cb (permissions this) Delete [query, data] cb))"


section \<open>ConnectionsManager\<close>

text \<open>
  ConnectionsManager and Users both keep their client in the property \<open>resource\<close>. The
  record of an instance with that property is the record of a ConnectionsManager; the
  record of a Users instance extends it.
\<close>

record resource_instance =
  resource :: client

type_synonym connections_manager = resource_instance

text \<open>
  The constructor assigns \<open>apiOptions\<close> without declaring it. The module is not in
  strict mode, so the assignment creates or overwrites the global variable of that name.
  The assignment comes before \<open>new RestClient\<close>.
\<close>

definition ConnectionsManager ::
  "externals \<Rightarrow> js_value \<Rightarrow> globals \<Rightarrow> (js_error + connections_manager) \<times> globals" where
  "ConnectionsManager ext options g =
    (if options = JNull \<or> typeof options \<noteq> ''object'' then
       (Inl (ArgumentError ''Must provide client options''), g)
     else if opt options ''baseUrl'' = JNull \<or> opt options ''baseUrl'' = JUndefined then
       (Inl (ArgumentError ''Must provide a base URL for the API''), g)
     else
       (case opt options ''baseUrl'' of
          JStr baseUrl \<Rightarrow>
            if length baseUrl = 0 then
              (Inl (ArgumentError ''The provided base URL is invalid''), g)
            else
              (let apiOptions = JObj
                     [(''headers'', opt options ''headers''),
                      (''query'', JObj [(''repeatParams'', JBool False)])];
                   g' = g(''apiOptions'' \<mapsto> apiOptions)
               in (and_then (new_RestClient ext (baseUrl @ ''/connections/:id '') apiOptions)
                     (\<lambda>r. Inr \<lparr> resource = r \<rparr>),
                   g'))
        | _ \<Rightarrow> (Inl (ArgumentError ''The provided base URL is invalid''), g)))"

text \<open>
  Modelled from the spec: \<open>utils.wrapPropertyMethod\<close> (required from \<open>../utils\<close>) is
  not in the sources. \<open>wrapPropertyMethod(Manager, name, 'resource.m')\<close> gives the
  manager a method \<open>name\<close> that forwards its whole argument list to the method \<open>m\<close>
  of the instance's property \<open>resource\<close>, the argument forwarding the spec describes
  for the manager layer.
\<close>

definition wrapPropertyMethod ::
  "(connections_manager \<Rightarrow> client) \<Rightarrow> client_method \<Rightarrow>
     connections_manager \<Rightarrow> js_value list \<Rightarrow> outcome" where
  "wrapPropertyMethod property m this arguments = Inr (Call (property this) m arguments)"

definition ConnectionsManager_create :: "connections_manager \<Rightarrow> js_value list \<Rightarrow> outcome" where
  "ConnectionsManager_create = wrapPropertyMethod resource Create"

definition ConnectionsManager_getAll :: "connections_manager \<Rightarrow> js_value list \<Rightarrow> outcome" where
  "ConnectionsManager_getAll = wrapPropertyMethod resource GetAll"



definition ConnectionsManager_delete :: "connections_manager \<Rightarrow> js_value list \<Rightarrow> outcome" where
  "ConnectionsManager_delete = wrapPropertyMethod resource Delete"

section \<open>Users\<close>

text \<open>
  The older class for the users endpoint. Its constructor has no guard: it reads
  \<open>options.accessToken\<close> and \<open>options.baseUrl\<close>, each a TypeError on \<open>null\<close> and
  \<open>undefined\<close>, and constructs a \<open>RestClient\<close> and a \<open>MetadataUpdater\<close>.
\<close>

record users_instance = resource_instance +
  metadataUpdater :: metadata_updater

definition Users :: "externals \<Rightarrow> js_value \<Rightarrow> js_error + users_instance" where
  "Users ext options =
     read_prop options ''accessToken'' (\<lambda>accessToken.
       let clientOptions = JObj
             [(''headers'',
                 JObj [(''Authorization'', JStr (''Bearer '' @ operand ext accessToken))])]
       in read_prop options ''baseUrl'' (\<lambda>baseUrl.
            and_then (new_RestClient ext (operand ext baseUrl @ ''/users/:userId'') clientOptions)
              (\<lambda>r. and_then (new_MetadataUpdater ext options)
                (\<lambda>m. Inr \<lparr> resource = r, metadataUpdater = m \<rparr>))))"





definition Users_delete :: "users_instance \<Rightarrow> js_value list \<Rightarrow> outcome" where
  "Users_delete this arguments = Inr (Call (resource this) Delete arguments)"

text \<open>The two metadata operations call \<open>update\<close> on the metadata updater.\<close>

datatype updater_call = MetadataUpdater_update metadata_updater "js_value list"

definition Users_updateAppMetadata ::
  "users_instance \<Rightarrow> js_value \<Rightarrow> js_value \<Rightarrow> js_value \<Rightarrow> updater_call" where
  "Users_updateAppMetadata this id' updatedMetadata cb =
     MetadataUpdater_update (metadataUpdater this)
       [id', JObj [(''updatedMetadata'', updatedMetadata), (''type'', JStr ''app_metadata'')], cb]"

definition Users_updateUserMetadata ::
  "users_instance \<Rightarrow> js_value \<Rightarrow> js_value \<Rightarrow> js_value \<Rightarrow> updater_call" where
  "Users_updateUserMetadata this id' updatedMetadata cb =
     MetadataUpdater_update (metadataUpdater this)
       [id', JObj [(''updatedMetadata'', updatedMetadata), (''type'', JStr ''user_metadata'')], cb]"

section \<open>The REST client layer\<close>

text \<open>
  The classes behind a client call are not in the sources; this section models them from
  the spec (its sections 4.1 to 4.3, 6 and 7).
\<close>

subsection \<open>HTTP methods\<close>

datatype http_verb = POST | GET | PATCH | PUT | DELETE

text \<open>
  Modelled from the spec: the choice of HTTP method is made inside the client classes,
  which are not in the sources. The spec gives the table: POST for create, GET for get
  and getAll, PATCH for the client's \<open>patch\<close> method, DELETE for delete. The table has
  no entry of its own for the client's separate \<open>update\<close> method; the HTTP method of
  that method is the parameter \<open>upd\<close>.
\<close>

fun http_method :: "http_verb \<Rightarrow> client_method \<Rightarrow> http_verb" where
  "http_method upd Create = POST"
| "http_method upd GetAll = GET"
| "http_method upd Get = GET"
| "http_method upd Patch = PATCH"
| "http_method upd Update = upd"
| "http_method upd Delete = DELETE"

subsection \<open>URL template resolver\<close>

text \<open>
  Modelled from the spec: the resolver is part of the client classes, which are not in the
  sources. A template is a path whose segments are separated by \<open>/\<close>; a segment that
  starts with a colon holds a placeholder. A placeholder that no parameter supplies
  removes its path segment, so with no parameters at all every such segment is removed.
  The spec fixes neither the lexical form of a placeholder's name nor the escaping of a
  value. How the placeholder of a segment is matched with the parameters, and the text
  that then replaces the segment, is therefore the parameter \<open>fill\<close> of the model: for
  a segment and the parameters it gives the replacing text and the name of the parameter
  consumed, or \<open>None\<close> when the parameters do not supply the placeholder. The
  placeholders resolve left to right, each on its own.
\<close>

type_synonym filler = "string \<Rightarrow> (string \<times> js_value) list \<Rightarrow> (string \<times> string) option"

fun split_path :: "string \<Rightarrow> string list" where
  "split_path [] = [[]]"
| "split_path (c # cs) =
     (if c = CHR ''/'' then [] # split_path cs
      else (case split_path cs of [] \<Rightarrow> [[c]] | s # ss \<Rightarrow> (c # s) # ss))"

fun join_path :: "string list \<Rightarrow> string" where
  "join_path [] = []"
| "join_path [s] = s"
| "join_path (s # t # ss) = s @ CHR ''/'' # join_path (t # ss)"

definition holds_placeholder :: "string \<Rightarrow> bool" where
  "holds_placeholder seg = (case seg of [] \<Rightarrow> False | c # cs \<Rightarrow> c = CHR '':'')"

definition supplied ::
  "filler \<Rightarrow> (string \<times> js_value) list \<Rightarrow> string \<Rightarrow> (string \<times> string) option" where
  "supplied fill ps seg = (if ps = [] then None else fill seg ps)"

fun resolve_segments ::
  "filler \<Rightarrow> (string \<times> js_value) list \<Rightarrow> string list \<Rightarrow> string list" where
  "resolve_segments fill ps [] = []"
| "resolve_segments fill ps (seg # segs) =
     (if holds_placeholder seg then
        (case supplied fill ps seg of
           None \<Rightarrow> resolve_segments fill ps segs
         | Some (text, name) \<Rightarrow> text # resolve_segments fill ps segs)
      else seg # resolve_segments fill ps segs)"

fun consumed_names ::
  "filler \<Rightarrow> (string \<times> js_value) list \<Rightarrow> string list \<Rightarrow> string list" where
  "consumed_names fill ps [] = []"
| "consumed_names fill ps (seg # segs) =
     (if holds_placeholder seg then
        (case supplied fill ps seg of
           None \<Rightarrow> consumed_names fill ps segs
         | Some (text, name) \<Rightarrow> name # consumed_names fill ps segs)
      else consumed_names fill ps segs)"

definition resolve_url ::
  "filler \<Rightarrow> string \<Rightarrow> (string \<times> js_value) list \<Rightarrow> string \<times> (string \<times> js_value) list" where
  "resolve_url fill template ps =
     (let segs = split_path template
      in (join_path (resolve_segments fill ps segs),
          filter (\<lambda>kv. fst kv \<notin> set (consumed_names fill ps segs)) ps))"

subsection \<open>Generic resource client\<close>

text \<open>
  Modelled from the spec: the request descriptor and the resource client that builds it
  are not in the sources. A descriptor is built fresh for each call from the client's
  template and options and the call's arguments: callbacks apart, a lone argument is
  the data of a create and the parameters of any other operation, and of two arguments
  the first is the parameters and the second the data. The parameters resolve the
  template; what the resolver leaves becomes the query.
\<close>

record request =
  verb :: http_verb
  path :: string
  headers :: js_value
  query :: "(string \<times> js_value) list"
  body :: js_value

fun client_options :: "client \<Rightarrow> js_value" where
  "client_options (RestClient u opts) = opts"
| "client_options (Auth0RestClient u opts tp) = opts"
| "client_options (RetryRestClient c r) = client_options c"

definition request_args :: "client_method \<Rightarrow> js_value list \<Rightarrow> js_value \<times> js_value" where
  "request_args m args =
     (case filter (\<lambda>a. \<not> instanceof_Function a) args of
        [] \<Rightarrow> (JUndefined, JUndefined)
      | [a] \<Rightarrow> (if m = Create then (JUndefined, a) else (a, JUndefined))
      | a # b # rest \<Rightarrow> (a, b))"

definition params_of :: "js_value \<Rightarrow> (string \<times> js_value) list" where
  "params_of v = (case v of JObj kvs \<Rightarrow> kvs | _ \<Rightarrow> [])"

definition build_request :: "http_verb \<Rightarrow> filler \<Rightarrow> client_call \<Rightarrow> request" where
  "build_request upd fill call =
     (case call of Call c m args \<Rightarrow>
        (let pd = request_args m args;
             resolved = resolve_url fill (client_url c) (params_of (fst pd))
         in \<lparr> verb = http_method upd m,
              path = fst resolved,
              headers = opt (client_options c) ''headers'',
              query = snd resolved,
              body = snd pd \<rparr>))"

text \<open>The HTTP requests that the calls of an operation amount to when nothing is retried.\<close>

definition http_requests :: "http_verb \<Rightarrow> filler \<Rightarrow> outcome \<Rightarrow> request list" where
  "http_requests upd fill r = map (build_request upd fill) (client_calls r)"

subsection \<open>Retry wrapper\<close>

text \<open>
  Modelled from the spec: \<open>RetryRestClient\<close> is not in the sources. The errors are the
  spec's taxonomy; the underlying operation takes the remote state and returns an error
  or the parsed response, with the remote state after the round trip.
\<close>

datatype api_error = TransientTransportError string | RemoteApiError nat string

record retry_policy =
  maxRetries :: nat
  retryCondition :: "api_error \<Rightarrow> bool"
  backoff :: "nat \<Rightarrow> nat"

datatype call_result =
    Success js_value
  | ExhaustedRetryError api_error
  | FatalFailure api_error

text \<open>
  What one call through the wrapper did: its terminal result, the results of its
  attempts in the order they were made, the backoff delays it waited between them, and
  the remote state it left.
\<close>

record 'rs retry_run =
  result :: call_result
  attempts :: "(api_error + js_value) list"
  waits :: "nat list"
  remote :: 'rs

text \<open>
  Modelled from the spec: the state machine of the retry wrapper. \<open>attempting\<close> is the
  state Attempting with \<open>n\<close> attempts failed so far; the underlying operation is issued
  once; a result ends the call in Success; a retryable error with \<open>n\<close> below the
  maximum waits the delay of attempt \<open>n\<close> and re-enters Attempting with \<open>n + 1\<close>; a
  retryable error at the maximum ends in ExhaustedFailure, surfaced as an
  ExhaustedRetryError around the last error; any other error ends in FatalFailure. A call
  starts with \<open>n = 0\<close>.
\<close>

function attempting ::
  "retry_policy \<Rightarrow> ('rs \<Rightarrow> (api_error + js_value) \<times> 'rs) \<Rightarrow> nat \<Rightarrow> 'rs \<Rightarrow> 'rs retry_run" where
  "attempting pol operation n rs =
     (case operation rs of
        (Inr v, rs') \<Rightarrow>
          \<lparr> result = Success v, attempts = [Inr v], waits = [], remote = rs' \<rparr>
      | (Inl e, rs') \<Rightarrow>
          if retryCondition pol e then
            if n < maxRetries pol then
              (let r = attempting pol operation (Suc n) rs'
               in r \<lparr> attempts := Inl e # attempts r, waits := backoff pol n # waits r \<rparr>)
            else
              \<lparr> result = ExhaustedRetryError e, attempts = [Inl e], waits = [], remote = rs' \<rparr>
          else
            \<lparr> result = FatalFailure e, attempts = [Inl e], waits = [], remote = rs' \<rparr>)"
  by pat_completeness auto
termination
  by (relation "measure (\<lambda>(pol, operation, n, rs). maxRetries pol - n)") auto

declare attempting.simps [simp del]

definition retry_call ::
  "retry_policy \<Rightarrow> ('rs \<Rightarrow> (api_error + js_value) \<times> 'rs) \<Rightarrow> 'rs \<Rightarrow> 'rs retry_run" where
  "retry_call pol operation rs = attempting pol operation 0 rs"


section \<open>Example inputs\<close>

text \<open>
  Concrete values at which the theorems below are instantiated: client constructors that
  accept every argument, and ones of which the retry wrapper rejects a budget of zero
  retries; options with a base URL; the managers constructed from them; parameters of a
  linked identity; a resolver parameter that takes the rest of a segment for the name
  and lets a string stand for itself; a policy of two retries for rate limiting, server
  errors and transport failures; and an operation that counts its round trips and
  answers each with a 503.
\<close>

abbreviation accepting :: externals where
  "accepting \<equiv>
     \<lparr> RestClient_throws = (\<lambda>u opts. None),
       Auth0RestClient_throws = (\<lambda>u opts tp. None),
       RetryRestClient_throws = (\<lambda>c r. None),
       MetadataUpdater_throws = (\<lambda>options. None),
       ToString = (\<lambda>v. ''[object Object]'') \<rparr>"


abbreviation example_options :: js_value where
  "example_options \<equiv> JObj [(''baseUrl'', JStr ''https://api.example.com'')]"

abbreviation example_users :: users_manager where
  "example_users \<equiv> projr (fst (UsersManager accepting example_options Map.empty))"

abbreviation example_connections :: connections_manager where
  "example_connections \<equiv> projr (fst (ConnectionsManager accepting example_options Map.empty))"

abbreviation example_legacy :: users_instance where
  "example_legacy \<equiv>
     projr (Users accepting
       (JObj [(''baseUrl'', JStr ''https://api.example.com''), (''accessToken'', JStr ''t0'')]))"

abbreviation example_link :: js_value where
  "example_link \<equiv>
     JObj [(''id'', JStr ''u1''), (''user_id'', JStr ''u2''), (''provider'', JStr ''github'')]"

abbreviation example_fill :: filler where
  "example_fill \<equiv>
     (\<lambda>seg ps. case map_of ps (tl seg) of
                  Some (JStr s) \<Rightarrow> Some (s, tl seg)
                | _ \<Rightarrow> None)"

abbreviation example_policy :: retry_policy where
  "example_policy \<equiv>
     \<lparr> maxRetries = 2,
       retryCondition =
         (\<lambda>e. case e of TransientTransportError m \<Rightarrow> True
                        | RemoteApiError st m \<Rightarrow> st = 429 \<or> 500 \<le> st),
       backoff = (\<lambda>n. 100 * 2 ^ n) \<rparr>"

abbreviation unavailable :: "nat \<Rightarrow> (api_error + js_value) \<times> nat" where
  "unavailable \<equiv> (\<lambda>n. (Inl (RemoteApiError 503 ''Service Unavailable''), Suc n))"

section \<open>Facts about JavaScript values\<close>

lemma typeof_string: "typeof v = ''string'' \<longleftrightarrow> (\<exists>s. v = JStr s)"
  by (cases v) auto

lemma typeof_function: "typeof v = ''function'' \<longleftrightarrow> (\<exists>f. v = JFun f)"
  by (cases v) auto

lemma get_prop_truthy: "truthy v \<Longrightarrow> \<exists>x. get_prop v k = Inr x"
  by (cases v) auto

lemma get_prop_falsy: "\<not> truthy v \<Longrightarrow> get_prop v k \<noteq> Inr (JStr s)"
  by (cases v) auto

lemma with_cb_args:
  "\<exists>xs. with_cb c m args cb = Inr (Call c m xs) \<and> (xs = args \<or> xs = args @ [cb])"
  by (simp add: with_cb_def)

section \<open>The retry budget\<close>

lemma attempting_budget:
  "length (attempts (attempting pol operation n rs)) \<le> maxRetries pol - n + 1"
proof (induction pol operation n rs rule: attempting.induct)
  case (1 pol operation n rs)
  show ?case
  proof (cases "operation rs")
    case (Pair x rs')
    show ?thesis
    proof (cases x)
      case (Inr v)
      with Pair show ?thesis by (subst attempting.simps) simp
    next
      case (Inl e)
      show ?thesis
      proof (cases "retryCondition pol e \<and> n < maxRetries pol")
        case True
        with "1.IH" [of x rs' e] Pair Inl
        have "length (attempts (attempting pol operation (Suc n) rs')) \<le> maxRetries pol - Suc n + 1"
          by simp
        moreover from True have "maxRetries pol - Suc n + 1 = maxRetries pol - n"
          by arith
        ultimately show ?thesis
          using True Pair Inl by (subst attempting.simps) (simp add: Let_def)
      next
        case False
        with Pair Inl show ?thesis by (subst attempting.simps) auto
      qed
    qed
  qed
qed

lemma attempting_exhausts:
  assumes fails: "\<forall>s. \<exists>e s'. operation s = (Inl e, s') \<and> retryCondition pol e"
  shows "length (attempts (attempting pol operation n rs)) = maxRetries pol - n + 1 \<and>
         (\<exists>e. last (attempts (attempting pol operation n rs)) = Inl e \<and>
              result (attempting pol operation n rs) = ExhaustedRetryError e)"
  using fails
proof (induction pol operation n rs rule: attempting.induct)
  case (1 pol operation n rs)
  from "1.prems" obtain e rs' where op: "operation rs = (Inl e, rs')" and re: "retryCondition pol e"
    by blast
  show ?case
  proof (cases "n < maxRetries pol")
    case True
    from "1.IH" [OF op [symmetric] refl re True "1.prems"]
    obtain e' where
      len: "length (attempts (attempting pol operation (Suc n) rs')) = maxRetries pol - Suc n + 1"
      and lst: "last (attempts (attempting pol operation (Suc n) rs')) = Inl e'"
      and res: "result (attempting pol operation (Suc n) rs') = ExhaustedRetryError e'"
      by blast
    from len have ne: "attempts (attempting pol operation (Suc n) rs') \<noteq> []"
      by auto
    from True have "maxRetries pol - Suc n + 1 = maxRetries pol - n"
      by arith
    with len lst res ne True op re show ?thesis
      by (subst (1 2 3) attempting.simps) (simp add: Let_def)
  next
    case False
    with op re show ?thesis
      by (subst (1 2 3) attempting.simps) simp
  qed
qed

text \<open>
  Claim C1. A call through the retry wrapper never makes more than \<open>maxRetries + 1\<close>
  attempts. When the transport answers every attempt with an error that the policy
  classifies as retryable, the call makes exactly \<open>maxRetries + 1\<close> attempts, one after
  the other, and ends in an ExhaustedRetryError that wraps the error of the last attempt.
\<close>

theorem retry_budget:
  "length (attempts (retry_call pol operation rs)) \<le> maxRetries pol + 1 \<and>
   ((\<forall>s. \<exists>e s'. operation s = (Inl e, s') \<and> retryCondition pol e) \<longrightarrow>
      length (attempts (retry_call pol operation rs)) = maxRetries pol + 1 \<and>
      (\<exists>e. last (attempts (retry_call pol operation rs)) = Inl e \<and>
           result (retry_call pol operation rs) = ExhaustedRetryError e))"
  using attempting_budget [of pol operation 0 rs] attempting_exhausts [of operation pol 0 rs]
  by (simp add: retry_call_def)

theorem retry_budget_witness:
  "length (attempts (retry_call example_policy unavailable 0)) = 3 \<and>
   last (attempts (retry_call example_policy unavailable 0)) =
     Inl (RemoteApiError 503 ''Service Unavailable'') \<and>
   result (retry_call example_policy unavailable 0) =
     ExhaustedRetryError (RemoteApiError 503 ''Service Unavailable'') \<and>
   waits (retry_call example_policy unavailable 0) = [100, 200] \<and>
   remote (retry_call example_policy unavailable 0) = 3"
  using retry_budget [of example_policy unavailable 0]
  by (simp add: retry_call_def attempting.simps Let_def)

section \<open>Construction\<close>



lemma UsersManager_globals: "snd (UsersManager ext options g) = g"
  by (simp add: UsersManager_def Let_def split: js_value.splits)











section \<open>Metadata updates\<close>

text \<open>
  Claim C4. \<open>updateUserMetadata(params, metadata)\<close> places exactly one call on the
  users client, a patch whose first argument is \<open>params\<close> as given and whose second is
  the object \<open>{user_metadata: metadata}\<close>, followed by the callback when one is given;
  \<open>updateAppMetadata\<close> does the same under the key \<open>app_metadata\<close>. The metadata
  value stands in the envelope as it was passed.
\<close>

theorem metadata_envelope:
  "(\<exists>args. UsersManager_updateUserMetadata this params metadata cb =
             Inr (Call (users this) Patch args) \<and>
      (args = [params, JObj [(''user_metadata'', metadata)]] \<or>
       args = [params, JObj [(''user_metadata'', metadata)], cb])) \<and>
   (\<exists>args. UsersManager_updateAppMetadata this params metadata cb =
             Inr (Call (users this) Patch args) \<and>
      (args = [params, JObj [(''app_metadata'', metadata)]] \<or>
       args = [params, JObj [(''app_metadata'', metadata)], cb])) \<and>
   length (client_calls (UsersManager_updateUserMetadata this params metadata cb)) = 1 \<and>
   length (client_calls (UsersManager_updateAppMetadata this params metadata cb)) = 1"
  by (simp add: UsersManager_updateUserMetadata_def UsersManager_updateAppMetadata_def
      with_cb_def Let_def)

theorem metadata_envelope_witness:
  "UsersManager_updateUserMetadata example_users (JObj [(''id'', JStr ''u1'')])
      (JObj [(''colour'', JStr ''red'')]) JUndefined =
     Inr (Call (users example_users) Patch
       [JObj [(''id'', JStr ''u1'')],
        JObj [(''user_metadata'', JObj [(''colour'', JStr ''red'')])]]) \<and>
   UsersManager_updateAppMetadata example_users (JObj [(''id'', JStr ''u1'')])
      (JObj [(''plan'', JStr ''gold'')]) (JFun 0) =
     Inr (Call (users example_users) Patch
       [JObj [(''id'', JStr ''u1'')],
        JObj [(''app_metadata'', JObj [(''plan'', JStr ''gold'')])], JFun 0])"
  using metadata_envelope [of example_users "JObj [(''id'', JStr ''u1'')]"
      "JObj [(''colour'', JStr ''red'')]" JUndefined]
    metadata_envelope [of example_users "JObj [(''id'', JStr ''u1'')]"
      "JObj [(''plan'', JStr ''gold'')]" "JFun 0"]
  by (simp add: UsersManager_updateUserMetadata_def UsersManager_updateAppMetadata_def
      with_cb_def)

section \<open>Validation of identifying parameters\<close>

lemma unlink_delegates:
  assumes "\<forall>k \<in> {''id'', ''user_id'', ''provider''}.
             \<exists>s. get_prop params k = Inr (JStr s) \<and> s \<noteq> []"
  shows "UsersManager_unlink this params cb = with_cb (identities this) Delete [params] cb"
proof -
  from assms obtain a b c where
    "get_prop params ''id'' = Inr (JStr a)" "a \<noteq> []"
    "get_prop params ''user_id'' = Inr (JStr b)" "b \<noteq> []"
    "get_prop params ''provider'' = Inr (JStr c)" "c \<noteq> []"
    by auto
  moreover from this have "truthy params"
    using get_prop_falsy [of params "''id''" a] by blast
  ultimately show ?thesis
    by (simp add: UsersManager_unlink_def js_or_def read_prop_def)
qed

lemma unlink_rejects:
  assumes "\<exists>k \<in> {''id'', ''user_id'', ''provider''}.
             \<forall>s. get_prop params k = Inr (JStr s) \<longrightarrow> s = []"
  shows "\<exists>msg. UsersManager_unlink this params cb = Inl (ArgumentError msg)"
proof (cases "truthy params")
  case False
  then show ?thesis
    by (simp add: UsersManager_unlink_def js_or_def read_prop_def)
next
  case True
  then obtain a b c where
    "get_prop params ''id'' = Inr a" "get_prop params ''user_id'' = Inr b"
    "get_prop params ''provider'' = Inr c"
    using get_prop_truthy by blast
  with True assms show ?thesis
    by (auto simp: UsersManager_unlink_def js_or_def read_prop_def typeof_string)
qed

text \<open>
  Claim C2, as stated, fails at two inputs. \<open>unlink\<close> given an \<open>id\<close> that is the empty
  string (a string, and present) throws the ArgumentError that the claim reserves for a
  missing or non-string field; and \<open>delete(null)\<close> throws a TypeError, not an
  ArgumentError, since \<open>typeof null\<close> is \<open>'object'\<close> and the read of \<open>null.id\<close> fails.
\<close>

theorem validation_counterexample:
  "UsersManager_unlink example_users
      (JObj [(''id'', JStr []), (''user_id'', JStr ''u2''), (''provider'', JStr ''github'')])
      JUndefined = Inl (ArgumentError ''id field is required'') \<and>
   UsersManager_delete example_users [JNull] = Inl TypeError"
  by (simp add: UsersManager_unlink_def UsersManager_delete_def js_or_def read_prop_def arg_def)

text \<open>
  Claim C2, amended. \<open>delete\<close> throws an ArgumentError, having placed no call on a
  client, for every first argument other than \<open>null\<close> whose \<open>typeof\<close> is not
  \<open>'object'\<close> or whose \<open>id\<close> is not a string; for an object with a string \<open>id\<close> it
  places the one call \<open>users.delete\<close> with the arguments as given. \<open>unlink\<close> throws an
  ArgumentError, having placed no call, when one of \<open>id\<close>, \<open>user_id\<close> and \<open>provider\<close>
  is missing, not a string or the empty string; when the three are non-empty strings it
  places the one call \<open>identities.delete\<close> with the parameters, and the callback if given.
\<close>

theorem validation_precedence:
  "((arg arguments 0 \<noteq> JNull \<and>
      (typeof (arg arguments 0) \<noteq> ''object'' \<or>
       (\<forall>s. get_prop (arg arguments 0) ''id'' \<noteq> Inr (JStr s)))) \<longrightarrow>
      is_ArgumentError (UsersManager_delete this arguments) \<and>
      client_calls (UsersManager_delete this arguments) = []) \<and>
   ((typeof (arg arguments 0) = ''object'' \<and>
      (\<exists>s. get_prop (arg arguments 0) ''id'' = Inr (JStr s))) \<longrightarrow>
      UsersManager_delete this arguments = Inr (Call (users this) Delete arguments)) \<and>
   ((\<exists>k \<in> {''id'', ''user_id'', ''provider''}.
        \<forall>s. get_prop params k = Inr (JStr s) \<longrightarrow> s = []) \<longrightarrow>
      is_ArgumentError (UsersManager_unlink this params cb) \<and>
      client_calls (UsersManager_unlink this params cb) = []) \<and>
   ((\<forall>k \<in> {''id'', ''user_id'', ''provider''}.
        \<exists>s. get_prop params k = Inr (JStr s) \<and> s \<noteq> []) \<longrightarrow>
      (\<exists>args. UsersManager_unlink this params cb = Inr (Call (identities this) Delete args) \<and>
         (args = [params] \<or> args = [params, cb])))"
proof (intro conjI impI)
  assume h: "arg arguments 0 \<noteq> JNull \<and>
      (typeof (arg arguments 0) \<noteq> ''object'' \<or>
       (\<forall>s. get_prop (arg arguments 0) ''id'' \<noteq> Inr (JStr s)))"
  then show "is_ArgumentError (UsersManager_delete this arguments)"
    by (cases "arg arguments 0")
       (auto simp: UsersManager_delete_def read_prop_def Let_def typeof_string
             split: option.splits)
  from h show "client_calls (UsersManager_delete this arguments) = []"
    by (cases "arg arguments 0")
       (auto simp: UsersManager_delete_def read_prop_def Let_def typeof_string
             split: option.splits)
next
  assume "typeof (arg arguments 0) = ''object'' \<and>
      (\<exists>s. get_prop (arg arguments 0) ''id'' = Inr (JStr s))"
  then show "UsersManager_delete this arguments = Inr (Call (users this) Delete arguments)"
    by (auto simp: UsersManager_delete_def read_prop_def Let_def)
next
  assume h: "\<exists>k \<in> {''id'', ''user_id'', ''provider''}.
        \<forall>s. get_prop params k = Inr (JStr s) \<longrightarrow> s = []"
  from unlink_rejects [OF h] obtain msg where
    "UsersManager_unlink this params cb = Inl (ArgumentError msg)" by blast
  then show "is_ArgumentError (UsersManager_unlink this params cb)"
    and "client_calls (UsersManager_unlink this params cb) = []"
    by simp_all
next
  assume h: "\<forall>k \<in> {''id'', ''user_id'', ''provider''}.
        \<exists>s. get_prop params k = Inr (JStr s) \<and> s \<noteq> []"
  show "\<exists>args. UsersManager_unlink this params cb = Inr (Call (identities this) Delete args) \<and>
         (args = [params] \<or> args = [params, cb])"
    unfolding unlink_delegates [OF h] by (simp add: with_cb_def)
qed

theorem validation_precedence_witness:
  "is_ArgumentError (UsersManager_delete example_users [JNum 7]) \<and>
   client_calls (UsersManager_delete example_users [JNum 7]) = [] \<and>
   UsersManager_delete example_users [JObj [(''id'', JStr ''u1'')], JFun 0] =
     Inr (Call (users example_users) Delete [JObj [(''id'', JStr ''u1'')], JFun 0]) \<and>
   is_ArgumentError (UsersManager_unlink example_users
     (JObj [(''id'', JStr ''u1''), (''provider'', JStr ''github'')]) JUndefined) \<and>
   UsersManager_unlink example_users example_link JUndefined =
     Inr (Call (identities example_users) Delete [example_link])"
  using validation_precedence [of "[JNum 7]" example_users example_link JUndefined]
    validation_precedence [of "[JObj [(''id'', JStr ''u1'')], JFun 0]" example_users
      "JObj [(''id'', JStr ''u1''), (''provider'', JStr ''github'')]" JUndefined]
  by (simp add: arg_def UsersManager_unlink_def js_or_def read_prop_def with_cb_def)

section \<open>Presence checks without a type check\<close>

lemma regenerate_cases:
  "UsersManager_regenerateRecoveryCode this params cb =
     (if truthy params \<and> (\<exists>i. get_prop params ''id'' = Inr i \<and> truthy i)
      then with_cb (recoveryCodeRegenerations this) Create [params, JObj []] cb
      else Inl (ArgumentError ''The userId cannot be null or undefined''))"
  using get_prop_truthy [of params "''id''"]
  by (auto simp: UsersManager_regenerateRecoveryCode_def read_prop_def)

lemma invalidate_cases:
  "UsersManager_invalidateRememberBrowser this params cb =
     (if truthy params \<and> (\<exists>i. get_prop params ''id'' = Inr i \<and> truthy i)
      then with_cb (invalidateRememberBrowsers this) Create [params, JObj []] cb
      else Inl (ArgumentError ''The userId cannot be null or undefined''))"
  using get_prop_truthy [of params "''id''"]
  by (auto simp: UsersManager_invalidateRememberBrowser_def read_prop_def)

text \<open>
  Claim C9. \<open>regenerateRecoveryCode\<close> and \<open>invalidateRememberBrowser\<close> throw an
  ArgumentError exactly when \<open>params\<close> is falsy or \<open>params.id\<close> is falsy. For a truthy
  \<open>params.id\<close> of any type they place a create on their client with \<open>params\<close> and an
  empty object as body. \<open>delete\<close>, \<open>unlink\<close> and \<open>deleteMultifactorProvider\<close> differ:
  they throw an ArgumentError for every \<open>id\<close> that is not a string.
\<close>

theorem presence_only_checks:
  "(is_ArgumentError (UsersManager_regenerateRecoveryCode this params cb) \<longleftrightarrow>
      (\<not> truthy params \<or> (\<exists>i. get_prop params ''id'' = Inr i \<and> \<not> truthy i))) \<and>
   (is_ArgumentError (UsersManager_invalidateRememberBrowser this params cb) \<longleftrightarrow>
      (\<not> truthy params \<or> (\<exists>i. get_prop params ''id'' = Inr i \<and> \<not> truthy i))) \<and>
   ((truthy params \<and> (\<exists>i. get_prop params ''id'' = Inr i \<and> truthy i)) \<longrightarrow>
      (\<exists>args. UsersManager_regenerateRecoveryCode this params cb =
                Inr (Call (recoveryCodeRegenerations this) Create args) \<and>
              (args = [params, JObj []] \<or> args = [params, JObj [], cb])) \<and>
      (\<exists>args. UsersManager_invalidateRememberBrowser this params cb =
                Inr (Call (invalidateRememberBrowsers this) Create args) \<and>
              (args = [params, JObj []] \<or> args = [params, JObj [], cb]))) \<and>
   ((\<exists>i. get_prop params ''id'' = Inr i \<and> typeof i \<noteq> ''string'') \<longrightarrow>
      is_ArgumentError (UsersManager_delete this (params # rest)) \<and>
      is_ArgumentError (UsersManager_unlink this params cb) \<and>
      is_ArgumentError (UsersManager_deleteMultifactorProvider this params cb))"
proof (intro conjI impI)
  show "is_ArgumentError (UsersManager_regenerateRecoveryCode this params cb) \<longleftrightarrow>
      (\<not> truthy params \<or> (\<exists>i. get_prop params ''id'' = Inr i \<and> \<not> truthy i))"
    using get_prop_truthy [of params "''id''"]
    by (auto simp: regenerate_cases with_cb_def)
  show "is_ArgumentError (UsersManager_invalidateRememberBrowser this params cb) \<longleftrightarrow>
      (\<not> truthy params \<or> (\<exists>i. get_prop params ''id'' = Inr i \<and> \<not> truthy i))"
    using get_prop_truthy [of params "''id''"]
    by (auto simp: invalidate_cases with_cb_def)
next
  assume h: "truthy params \<and> (\<exists>i. get_prop params ''id'' = Inr i \<and> truthy i)"
  show "\<exists>args. UsersManager_regenerateRecoveryCode this params cb =
                Inr (Call (recoveryCodeRegenerations this) Create args) \<and>
              (args = [params, JObj []] \<or> args = [params, JObj [], cb])"
    using h with_cb_args [of "recoveryCodeRegenerations this" Create "[params, JObj []]" cb]
    by (simp add: regenerate_cases)
  show "\<exists>args. UsersManager_invalidateRememberBrowser this params cb =
                Inr (Call (invalidateRememberBrowsers this) Create args) \<and>
              (args = [params, JObj []] \<or> args = [params, JObj [], cb])"
    using h with_cb_args [of "invalidateRememberBrowsers this" Create "[params, JObj []]" cb]
    by (simp add: invalidate_cases)
next
  assume h: "\<exists>i. get_prop params ''id'' = Inr i \<and> typeof i \<noteq> ''string''"
  then show "is_ArgumentError (UsersManager_delete this (params # rest))"
    by (auto simp: UsersManager_delete_def read_prop_def arg_def)
  from h show "is_ArgumentError (UsersManager_unlink this params cb)"
    by (cases "truthy params") (auto simp: UsersManager_unlink_def read_prop_def js_or_def)
  from h show "is_ArgumentError (UsersManager_deleteMultifactorProvider this params cb)"
    by (cases "truthy params")
       (auto simp: UsersManager_deleteMultifactorProvider_def read_prop_def js_or_def)
qed

theorem presence_only_checks_witness:
  "UsersManager_regenerateRecoveryCode example_users (JObj [(''id'', JNum 7)]) JUndefined =
     Inr (Call (recoveryCodeRegenerations example_users) Create
            [JObj [(''id'', JNum 7)], JObj []]) \<and>
   UsersManager_invalidateRememberBrowser example_users (JObj [(''id'', JNum 7)]) JUndefined =
     Inr (Call (invalidateRememberBrowsers example_users) Create
            [JObj [(''id'', JNum 7)], JObj []]) \<and>
   is_ArgumentError (UsersManager_delete example_users [JObj [(''id'', JNum 7)]]) \<and>
   is_ArgumentError (UsersManager_unlink example_users (JObj [(''id'', JNum 7)]) JUndefined) \<and>
   is_ArgumentError
     (UsersManager_deleteMultifactorProvider example_users (JObj [(''id'', JNum 7)]) JUndefined) \<and>
   is_ArgumentError
     (UsersManager_regenerateRecoveryCode example_users (JObj [(''id'', JNum 0)]) JUndefined)"
  using presence_only_checks [of example_users "JObj [(''id'', JNum 7)]" JUndefined "[]"]
    presence_only_checks [of example_users "JObj [(''id'', JNum 0)]" JUndefined "[]"]
  by (simp add: regenerate_cases invalidate_cases with_cb_def)

section \<open>Delete paths and the id requirement\<close>

lemma delete_needs_id:
  "UsersManager_delete this arguments = Inr c \<Longrightarrow>
     \<exists>s. get_prop (arg arguments 0) ''id'' = Inr (JStr s)"
  by (auto simp: UsersManager_delete_def read_prop_def Let_def typeof_string
           split: if_splits sum.splits)

lemma deleteMultifactorProvider_needs_id:
  "UsersManager_deleteMultifactorProvider this params cb = Inr c \<Longrightarrow>
     \<exists>s. get_prop params ''id'' = Inr (JStr s)"
  by (cases "truthy params")
     (auto simp: UsersManager_deleteMultifactorProvider_def read_prop_def Let_def js_or_def
             typeof_string
           split: if_splits sum.splits)

lemma unlink_needs_id:
  "UsersManager_unlink this params cb = Inr c \<Longrightarrow> \<exists>s. get_prop params ''id'' = Inr (JStr s)"
  by (cases "truthy params")
     (auto simp: UsersManager_unlink_def read_prop_def Let_def js_or_def typeof_string
           split: if_splits sum.splits)

lemma removeRoles_needs_id:
  "UsersManager_removeRoles this params data cb = Inr c \<Longrightarrow>
     \<exists>s. get_prop params ''id'' = Inr (JStr s)"
  by (auto simp: UsersManager_removeRoles_def read_prop_def Let_def typeof_string
           split: if_splits sum.splits)

lemma removePermissions_needs_id:
  "UsersManager_removePermissions this params data cb = Inr c \<Longrightarrow>
     \<exists>s. get_prop params ''id'' = Inr (JStr s)"
  by (auto simp: UsersManager_removePermissions_def read_prop_def Let_def typeof_string
           split: if_splits sum.splits)

text \<open>
  Claim C8, as stated, fails in its last clause: \<open>deleteAll\<close> is not the only delete
  path of a manager that reaches a client without an id. \<open>ConnectionsManager.delete\<close>
  and \<open>Users.delete\<close> check nothing; called with no argument at all, each places its
  delete on the client.
\<close>

theorem delete_paths_counterexample:
  "ConnectionsManager_delete example_connections [] =
     Inr (Call (resource example_connections) Delete []) \<and>
   Users_delete example_legacy [] = Inr (Call (resource example_legacy) Delete [])"
  by (simp add: ConnectionsManager_delete_def wrapPropertyMethod_def Users_delete_def)

text \<open>
  Claim C8, amended. \<open>deleteAll\<close> throws an ArgumentError, having placed no call,
  whenever its first argument is not a function, also when it is called with no
  argument. When the first argument is a function, \<open>deleteAll\<close> places the one call
  \<open>users.delete\<close> with its arguments as given, the callback first, which carries no
  \<open>id\<close>. Among the operations of UsersManager it is the only delete path to do so:
  \<open>delete\<close>, \<open>deleteMultifactorProvider\<close>, \<open>unlink\<close>, \<open>removeRoles\<close> and
  \<open>removePermissions\<close> reach their client only with an \<open>id\<close> that is a string. The
  \<open>delete\<close> of ConnectionsManager and of Users forward every argument list to
  \<open>resource.delete\<close> with no check.
\<close>

theorem delete_paths:
  "(typeof (arg arguments 0) \<noteq> ''function'' \<longrightarrow>
      is_ArgumentError (UsersManager_deleteAll this arguments) \<and>
      client_calls (UsersManager_deleteAll this arguments) = []) \<and>
   is_ArgumentError (UsersManager_deleteAll this []) \<and>
   (typeof (arg arguments 0) = ''function'' \<longrightarrow>
      UsersManager_deleteAll this arguments = Inr (Call (users this) Delete arguments) \<and>
      get_prop (arg arguments 0) ''id'' = Inr JUndefined) \<and>
   (\<forall>c. UsersManager_delete this arguments = Inr c \<longrightarrow>
      (\<exists>s. get_prop (arg arguments 0) ''id'' = Inr (JStr s))) \<and>
   (\<forall>c. UsersManager_deleteMultifactorProvider this params cb = Inr c \<longrightarrow>
      (\<exists>s. get_prop params ''id'' = Inr (JStr s))) \<and>
   (\<forall>c. UsersManager_unlink this params cb = Inr c \<longrightarrow>
      (\<exists>s. get_prop params ''id'' = Inr (JStr s))) \<and>
   (\<forall>c. UsersManager_removeRoles this params data cb = Inr c \<longrightarrow>
      (\<exists>s. get_prop params ''id'' = Inr (JStr s))) \<and>
   (\<forall>c. UsersManager_removePermissions this params data cb = Inr c \<longrightarrow>
      (\<exists>s. get_prop params ''id'' = Inr (JStr s))) \<and>
   ConnectionsManager_delete cm arguments = Inr (Call (resource cm) Delete arguments) \<and>
   Users_delete lu arguments = Inr (Call (resource lu) Delete arguments)"
proof (intro conjI impI allI)
  assume "typeof (arg arguments 0) \<noteq> ''function''"
  then show "is_ArgumentError (UsersManager_deleteAll this arguments)"
    and "client_calls (UsersManager_deleteAll this arguments) = []"
    by (simp_all add: UsersManager_deleteAll_def)
next
  show "is_ArgumentError (UsersManager_deleteAll this [])"
    by (simp add: UsersManager_deleteAll_def arg_def)
next
  assume f: "typeof (arg arguments 0) = ''function''"
  then show "UsersManager_deleteAll this arguments = Inr (Call (users this) Delete arguments)"
    by (simp add: UsersManager_deleteAll_def)
  from f show "get_prop (arg arguments 0) ''id'' = Inr JUndefined"
    by (auto simp: typeof_function)
next
  show "ConnectionsManager_delete cm arguments = Inr (Call (resource cm) Delete arguments)"
    by (simp add: ConnectionsManager_delete_def wrapPropertyMethod_def)
next
  show "Users_delete lu arguments = Inr (Call (resource lu) Delete arguments)"
    by (simp add: Users_delete_def)
qed (erule delete_needs_id deleteMultifactorProvider_needs_id unlink_needs_id
      removeRoles_needs_id removePermissions_needs_id)+

theorem delete_paths_witness:
  "UsersManager_deleteAll example_users [JFun 0] =
     Inr (Call (users example_users) Delete [JFun 0]) \<and>
   is_ArgumentError (UsersManager_deleteAll example_users [example_link]) \<and>
   get_prop example_link ''id'' = Inr (JStr ''u1'') \<and>
   UsersManager_delete example_users [example_link] =
     Inr (Call (users example_users) Delete [example_link]) \<and>
   UsersManager_deleteMultifactorProvider example_users example_link JUndefined =
     Inr (Call (multifactor example_users) Delete [example_link]) \<and>
   UsersManager_unlink example_users example_link JUndefined =
     Inr (Call (identities example_users) Delete [example_link]) \<and>
   UsersManager_removeRoles example_users example_link
       (JObj [(''roles'', JArr [JStr ''r1''])]) JUndefined =
     Inr (Call (roles example_users) Delete
            [example_link, JObj [(''roles'', JArr [JStr ''r1''])]]) \<and>
   UsersManager_removePermissions example_users example_link JUndefined JUndefined =
     Inr (Call (permissions example_users) Delete [example_link, JObj []])"
  using delete_paths [of "[JFun 0]" example_users example_link JUndefined
      "JObj [(''roles'', JArr [JStr ''r1''])]" example_connections example_legacy]
    delete_paths [of "[example_link]" example_users example_link JUndefined JUndefined
      example_connections example_legacy]
  by (simp add: arg_def UsersManager_delete_def UsersManager_deleteMultifactorProvider_def
      UsersManager_unlink_def UsersManager_removeRoles_def UsersManager_removePermissions_def
      read_prop_def js_or_def with_cb_def)

section \<open>HTTP methods of the operations\<close>




section \<open>State shared between instances\<close>

text \<open>
  Claim C6 asks that no constructor writes to state shared between manager instances.
  The constructor of ConnectionsManager does: constructed from options with a base URL
  while no global variable exists, it leaves the global \<open>apiOptions\<close> holding the options
  object of the instance, and the construction of a second instance overwrites that
  global with the options object of the second. The assignment precedes the construction
  of the client, so this holds whatever the client constructor does.
\<close>

theorem apiOptions_is_global:
  "snd (ConnectionsManager ext example_options Map.empty) ''apiOptions'' =
      Some (JObj [(''headers'', JUndefined),
                  (''query'', JObj [(''repeatParams'', JBool False)])]) \<and>
   snd (ConnectionsManager ext
          (JObj [(''baseUrl'', JStr ''https://other.example.com''),
                 (''headers'', JObj [(''x'', JStr ''1'')])])
          (snd (ConnectionsManager ext example_options Map.empty))) ''apiOptions'' =
      Some (JObj [(''headers'', JObj [(''x'', JStr ''1'')]),
                  (''query'', JObj [(''repeatParams'', JBool False)])])"
  by (simp add: ConnectionsManager_def opt_def Let_def)

section \<open>The path template of the connections resource\<close>

lemma split_path_nonempty: "split_path s \<noteq> []"
  by (induction s) (auto split: list.splits)

lemma split_path_append:
  "split_path (b @ CHR ''/'' # t) = split_path b @ split_path t"
  using split_path_nonempty by (induction b) (auto split: list.splits)

lemma resolve_segments_append:
  "resolve_segments fill ps (xs @ ys) =
     resolve_segments fill ps xs @ resolve_segments fill ps ys"
  by (induction xs) (auto split: option.splits)

lemma join_path_snoc:
  "join_path (xs @ [y]) = (if xs = [] then y else join_path xs @ CHR ''/'' # y)"
  by (induction xs rule: join_path.induct) auto

lemma join_path_connections:
  "\<exists>p. join_path (xs @ [''connections'']) = p @ ''connections''"
  by (simp only: join_path_snoc) (cases "xs = []", auto)

lemma connections_segments:
  "split_path (b @ ''/connections/:id '') = split_path b @ [''connections'', '':id '']"
proof -
  have "split_path (b @ ''/connections/:id '') = split_path b @ split_path ''connections/:id ''"
    using split_path_append [of b "''connections/:id ''"] by simp
  also have "split_path ''connections/:id '' = [''connections'', '':id '']"
    by simp
  finally show ?thesis .
qed

lemma connections_path_no_params:
  "fst (resolve_url fill (b @ ''/connections/:id '') []) =
     join_path (resolve_segments fill [] (split_path b) @ [''connections''])"
  by (simp add: resolve_url_def connections_segments resolve_segments_append
      holds_placeholder_def supplied_def)

lemma ConnectionsManager_resource:
  assumes "fst (ConnectionsManager ext options g) = Inr cm"
  shows "\<exists>b opts. get_prop options ''baseUrl'' = Inr (JStr b) \<and>
                  resource cm = RestClient (b @ ''/connections/:id '') opts"
  using assms
  by (cases options)
     (auto simp: ConnectionsManager_def Let_def opt_def new_RestClient_def and_then_def
           split: if_splits js_value.splits option.splits)

lemma connection_request_path:
  "path (build_request upd fill (Call (RestClient u opts) m args)) =
     fst (resolve_url fill u (params_of (fst (request_args m args))))"
  by (simp add: build_request_def Let_def)

text \<open>
  Claim C10, as stated, fails for the operations that supply no parameters: the paths of
  \<open>getAll()\<close> and of \<open>create(data)\<close> on a manager constructed with the base URL
  \<open>https://api.example.com\<close> end in \<open>connections\<close>, with no trailing space.
\<close>

theorem connections_template_counterexample:
  "map path (http_requests PUT example_fill (ConnectionsManager_getAll example_connections [])) =
     [''https://api.example.com/connections''] \<and>
   map path (http_requests PUT example_fill
      (ConnectionsManager_create example_connections [JObj [(''name'', JStr ''corp'')]])) =
     [''https://api.example.com/connections'']"
  by (simp add: ConnectionsManager_def opt_def Let_def new_RestClient_def and_then_def
      ConnectionsManager_getAll_def ConnectionsManager_create_def
      wrapPropertyMethod_def http_requests_def build_request_def request_args_def params_of_def
      resolve_url_def holds_placeholder_def supplied_def)

text \<open>
  Claim C10, amended. For every base URL the constructor of ConnectionsManager builds its
  resource from the template \<open>baseUrl + '/connections/:id '\<close>, whose last character is a
  space. The path of a connection operation that supplies no parameters ends in
  \<open>connections\<close>, not in a space: the placeholder's segment, the space with it, is
  removed. Nothing is said of the path of an operation that supplies an id.
\<close>

theorem connections_template:
  "fst (ConnectionsManager ext options g) = Inr cm \<longrightarrow>
     (\<exists>b. get_prop options ''baseUrl'' = Inr (JStr b) \<and>
          client_url (resource cm) = b @ ''/connections/:id '') \<and>
     last (client_url (resource cm)) = CHR '' '' \<and>
     (params_of (fst (request_args m args)) = [] \<longrightarrow>
        (\<exists>p. path (build_request upd fill (Call (resource cm) m args)) = p @ ''connections'') \<and>
        last (path (build_request upd fill (Call (resource cm) m args))) \<noteq> CHR '' '')"
proof (intro impI)
  assume "fst (ConnectionsManager ext options g) = Inr cm"
  from ConnectionsManager_resource [OF this] obtain b opts where
    b: "get_prop options ''baseUrl'' = Inr (JStr b)" and
    r: "resource cm = RestClient (b @ ''/connections/:id '') opts"
    by blast
  let ?ps = "params_of (fst (request_args m args))"
  let ?path = "path (build_request upd fill (Call (resource cm) m args))"
  have no_params: "(\<exists>p. ?path = p @ ''connections'') \<and> last ?path \<noteq> CHR '' ''"
    if "?ps = []"
  proof -
    from join_path_connections obtain q where
      "join_path (resolve_segments fill [] (split_path b) @ [''connections'']) =
         q @ ''connections''"
      by blast
    with that have "?path = q @ ''connections''"
      by (simp add: r connection_request_path connections_path_no_params)
    then show ?thesis by simp
  qed
  from b r no_params
  show "(\<exists>b. get_prop options ''baseUrl'' = Inr (JStr b) \<and>
          client_url (resource cm) = b @ ''/connections/:id '') \<and>
     last (client_url (resource cm)) = CHR '' '' \<and>
     (?ps = [] \<longrightarrow> (\<exists>p. ?path = p @ ''connections'') \<and> last ?path \<noteq> CHR '' '')"
    by simp
qed

theorem connections_template_witness:
  "client_url (resource example_connections) = ''https://api.example.com/connections/:id '' \<and>
   last (client_url (resource example_connections)) = CHR '' '' \<and>
   path (build_request PUT example_fill (Call (resource example_connections) GetAll [JFun 0])) =
     ''https://api.example.com/connections''"
  using connections_template [of accepting example_options Map.empty example_connections
      GetAll "[JFun 0]" PUT example_fill]
  by (simp add: ConnectionsManager_def opt_def Let_def new_RestClient_def and_then_def
      build_request_def request_args_def params_of_def
      resolve_url_def holds_placeholder_def supplied_def)

end
